theory Spec2Isabelle
  imports Complex_Main "HOL-Library.Char_ord" "HOL-Library.List_Lexorder" "HOL-Library.Multiset"
begin

section \<open>Data model\<close>

text \<open>
  One line of \<^verbatim>\<open>days_of_inventory_200_products.csv\<close> as \<^verbatim>\<open>pd.read_csv\<close> returns it.
  Text columns are strings (a Python string is kept as its UTF-8 bytes, whose
  lexicographic order is the order of the code points), quantity columns are integers,
  money columns and DOI are numbers without NaN, each cell the number its machine
  value stands for, and \<^verbatim>\<open>ExpiryDate\<close> is a pandas timestamp: nanoseconds since the
  epoch. The column \<^verbatim>\<open>12MoDollarsSold\<close> is
  named \<open>DollarsSold12Mo\<close>, since an identifier cannot start with a digit.
\<close>

record product =
  Product :: string
  Warehouse :: string
  Buyer :: string
  Category :: string
  StockQty :: int
  AvgLandedCost :: real
  TotalInventoryCost :: real
  Last12MoQtySold :: int
  DOI :: real
  OverstockInventoryValue :: real
  ExpiryDate :: int
  DollarsSold12Mo :: real

text \<open>A row of \<^verbatim>\<open>df\<close> after line 48 has the column \<^verbatim>\<open>DOI_Status\<close> as well.\<close>

record row = product +
  DOI_Status :: string

type_synonym frame = "row list"

datatype error = ValueError

section \<open>Status classifier (lines 37-48)\<close>

definition LOW :: string where
  "LOW = [CHR 0xF0, CHR 0x9F, CHR 0x94, CHR 0xB4] @ '' Low''"

definition OVERSTOCK :: string where
  "OVERSTOCK = [CHR 0xF0, CHR 0x9F, CHR 0x9F, CHR 0xA2] @ '' Overstock''"

definition NORMAL :: string where
  "NORMAL = [CHR 0xF0, CHR 0x9F, CHR 0x9F, CHR 0xA1] @ '' Normal''"

text \<open>
  The \<^verbatim>\<open>for\<close> loop of \<^verbatim>\<open>get_doi_status\<close>: \<open>status\<close> is the list built so far,
  and each value appends one label.
\<close>

fun get_doi_status_loop :: "real list \<Rightarrow> string list \<Rightarrow> string list" where
  "get_doi_status_loop [] status = status"
| "get_doi_status_loop (doi # dois) status =
     get_doi_status_loop dois
       (if doi < 10 then status @ [LOW]
        else if doi > 180 then status @ [OVERSTOCK]
        else status @ [NORMAL])"

definition get_doi_status :: "real list \<Rightarrow> string list" where
  "get_doi_status dois = get_doi_status_loop dois []"

text \<open>
  \<^verbatim>\<open>df['DOI_Status'] = ...\<close>: assigning a list as a column raises
  \<^verbatim>\<open>ValueError\<close> when its length is not the number of rows.
\<close>

definition setitem_DOI_Status :: "product list \<Rightarrow> string list \<Rightarrow> error + frame" where
  "setitem_DOI_Status df col =
     (if length col \<noteq> length df then Inl ValueError
      else Inr (map (\<lambda>(p, s). product.extend p (row.fields s)) (zip df col)))"

text \<open>Lines 34 and 48: the table every view works on.\<close>

definition classified :: "product list \<Rightarrow> error + frame" where
  "classified loaded = setitem_DOI_Status loaded (get_doi_status (map DOI loaded))"

section \<open>Rule filters (lines 52-55)\<close>

text \<open>
  \<^verbatim>\<open>df[mask]\<close>: indexing with a boolean column keeps the rows whose entry is
  \<^verbatim>\<open>True\<close>, in their order, as a new frame. The mask \<open>m\<close> is always computed from the
  frame it indexes, so both have the same length.
\<close>

definition getitem_mask :: "'a list \<Rightarrow> bool list \<Rightarrow> 'a list" where
  "getitem_mask df m = map fst (filter snd (zip df m))"

text \<open>\<^verbatim>\<open>m1 & m2\<close> on two boolean columns.\<close>

definition mask_and :: "bool list \<Rightarrow> bool list \<Rightarrow> bool list" where
  "mask_and m1 m2 = map (\<lambda>(a, b). a \<and> b) (zip m1 m2)"

text \<open>\<^verbatim>\<open>pd.Timedelta(days=d)\<close> in nanoseconds.\<close>

definition Timedelta_days :: "int \<Rightarrow> int" where
  "Timedelta_days d = d * 86400000000000"

definition low_doi_df :: "frame \<Rightarrow> frame" where
  "low_doi_df df = getitem_mask df (map (\<lambda>r. DOI r < 10) df)"

definition overstock_df :: "frame \<Rightarrow> frame" where
  "overstock_df df = getitem_mask df (map (\<lambda>r. OverstockInventoryValue r > 0) df)"

text \<open>
  \<open>today\<close> is the value \<^verbatim>\<open>pd.Timestamp.today()\<close> returns when the line runs: the
  reading of the wall clock at this render, in nanoseconds.
\<close>

definition expiring_df :: "int \<Rightarrow> frame \<Rightarrow> frame" where
  "expiring_df today df =
     getitem_mask df (map (\<lambda>r. ExpiryDate r < today + Timedelta_days 30) df)"

text \<open>
  The specification words the horizon from the wall-clock date, the day without the
  time of day: \<open>wall_clock_date\<close> is midnight of the day of an instant, and
  \<open>spec_expiring\<close> is the filter as the specification words it, for the horizon of
  30 or 90 days. They are compared with what lines 54 and 204 compute.
\<close>

definition wall_clock_date :: "int \<Rightarrow> int" where
  "wall_clock_date now = now - now mod Timedelta_days 1"

definition spec_expiring :: "int \<Rightarrow> int \<Rightarrow> frame \<Rightarrow> frame" where
  "spec_expiring days now df =
     filter (\<lambda>r. ExpiryDate r < wall_clock_date now + Timedelta_days days) df"

definition high_cost_low_sales_df :: "frame \<Rightarrow> frame" where
  "high_cost_low_sales_df df =
     getitem_mask df
       (mask_and (map (\<lambda>r. TotalInventoryCost r > 5000) df)
                 (map (\<lambda>r. Last12MoQtySold r < 50) df))"

section \<open>Aggregates and samples (lines 64-69)\<close>

text \<open>\<^verbatim>\<open>Series.unique()\<close>: the distinct values in order of first appearance.\<close>

definition unique :: "'a list \<Rightarrow> 'a list" where
  "unique xs = rev (remdups (rev xs))"

text \<open>
  \<^verbatim>\<open>.sum()\<close> adds in the arithmetic of the column's dtype: \<^verbatim>\<open>float64\<close> addition
  rounds, \<^verbatim>\<open>int64\<close> addition wraps around. The sum the library computes from the
  cells of a group, in row order, is the argument \<open>gsum\<close> of the grouped sums, and the
  sum it computes from a whole column is the argument \<open>ssum\<close> of the view; nothing
  is assumed about either.

  \<open>float64_sum\<close> is the grouped sum of a \<^verbatim>\<open>float64\<close> column below the overflow
  threshold: \<open>float64\<close> rounds a number to the nearest double, a tie to the even
  significand (\<open>float64_exponent\<close> finds the binary exponent of the spacing of the
  doubles around it, no lower than that of the subnormal ones), and the sum is
  compensated (Kahan), as pandas' grouped sum is.
\<close>

definition round_half_even :: "real \<Rightarrow> int" where
  "round_half_even x =
     (let f = \<lfloor>x\<rfloor>; d = x - of_int f
      in if d < 1 / 2 then f else if d > 1 / 2 then f + 1 else if even f then f else f + 1)"

fun float64_exponent :: "nat \<Rightarrow> real \<Rightarrow> int \<Rightarrow> int" where
  "float64_exponent n a e =
     (if n = 0 then e
      else if 2 ^ 53 \<le> a then float64_exponent (n - 1) (a / 2) (e + 1)
      else if a < 2 ^ 52 \<and> - 1074 < e then float64_exponent (n - 1) (2 * a) (e - 1)
      else e)"

declare float64_exponent.simps [simp del]

definition pow2 :: "int \<Rightarrow> real" where
  "pow2 e = (if 0 \<le> e then 2 ^ nat e else 1 / 2 ^ nat (- e))"

definition float64 :: "real \<Rightarrow> real" where
  "float64 x =
     (if x = 0 then 0
      else let q = pow2 (float64_exponent 1100 \<bar>x\<bar> 0)
           in of_int (round_half_even (x / q)) * q)"

fun kahan :: "real list \<Rightarrow> real \<Rightarrow> real \<Rightarrow> real" where
  "kahan [] sumx compensation = sumx"
| "kahan (v # vs) sumx compensation =
     (let y = float64 (v - compensation);
          t = float64 (sumx + y)
      in kahan vs t (float64 (float64 (t - sumx) - y)))"

definition float64_sum :: "real list \<Rightarrow> real" where
  "float64_sum vs = kahan vs 0 0"

text \<open>
  \<^verbatim>\<open>frame.groupby(key)[col].sum()\<close>: one entry per distinct key, the keys sorted
  (the default \<^verbatim>\<open>sort=True\<close>), each with the library's sum of the column over its
  rows.
\<close>

definition groupby_sum ::
    "(real list \<Rightarrow> real) \<Rightarrow> (row \<Rightarrow> string) \<Rightarrow> (row \<Rightarrow> real) \<Rightarrow> frame \<Rightarrow> (string \<times> real) list" where
  "groupby_sum gsum key col df =
     map (\<lambda>k. (k, gsum (map col (filter (\<lambda>r. key r = k) df))))
       (sort (remdups (map key df)))"

text \<open>
  \<^verbatim>\<open>Series.idxmax()\<close>: the label of the first entry that holds the greatest value;
  it raises \<^verbatim>\<open>ValueError\<close> on an empty series.
\<close>

fun idxmax_from :: "string \<times> real \<Rightarrow> (string \<times> real) list \<Rightarrow> string \<times> real" where
  "idxmax_from best [] = best"
| "idxmax_from best (kv # s) = idxmax_from (if snd kv > snd best then kv else best) s"

definition idxmax :: "(string \<times> real) list \<Rightarrow> error + string" where
  "idxmax s = (case s of [] \<Rightarrow> Inl ValueError | kv # s' \<Rightarrow> Inr (fst (idxmax_from kv s')))"

text \<open>\<^verbatim>\<open>Series.max()\<close>: the greatest value; NaN (here \<open>None\<close>) on an empty series.\<close>

definition series_max :: "(string \<times> real) list \<Rightarrow> real option" where
  "series_max s = (case s of [] \<Rightarrow> None | kv # s' \<Rightarrow> Some (fold (\<lambda>kv m. max (snd kv) m) s' (snd kv)))"

text \<open>Line 66. The argument is \<^verbatim>\<open>overstock_df\<close>; \<open>Inr None\<close> is Python's \<^verbatim>\<open>None\<close>.\<close>

definition top_buyer :: "(real list \<Rightarrow> real) \<Rightarrow> frame \<Rightarrow> error + string option" where
  "top_buyer gsum odf =
     (if odf \<noteq> []
      then (case idxmax (groupby_sum gsum Buyer OverstockInventoryValue odf) of
              Inl e \<Rightarrow> Inl e
            | Inr b \<Rightarrow> Inr (Some b))
      else Inr None)"

text \<open>Line 67.\<close>

definition top_buyer_val :: "(real list \<Rightarrow> real) \<Rightarrow> frame \<Rightarrow> real option" where
  "top_buyer_val gsum odf =
     (if odf \<noteq> [] then series_max (groupby_sum gsum Buyer OverstockInventoryValue odf)
      else Some 0)"

text \<open>
  \<^verbatim>\<open>frame.sample(n)\<close> draws \<open>n\<close> distinct row positions at random and returns those
  rows; it raises \<^verbatim>\<open>ValueError\<close> when \<open>n\<close> is more than the number of rows. The
  positions the random generator picked are the argument \<open>draw\<close>, and \<open>valid_draw\<close>
  says what the generator guarantees about them.
\<close>

definition valid_draw :: "nat list \<Rightarrow> nat \<Rightarrow> nat \<Rightarrow> bool" where
  "valid_draw draw n len = (length draw = n \<and> distinct draw \<and> list_all (\<lambda>i. i < len) draw)"

definition sample :: "nat list \<Rightarrow> nat \<Rightarrow> 'a list \<Rightarrow> error + 'a list" where
  "sample draw n df = (if n > length df then Inl ValueError else Inr (map (\<lambda>i. df ! i) draw))"

text \<open>Lines 68 and 69; the arguments are \<^verbatim>\<open>high_cost_low_sales_df\<close> and \<^verbatim>\<open>expiring_df\<close>.\<close>

definition risky_sample :: "nat list \<Rightarrow> frame \<Rightarrow> error + string list" where
  "risky_sample draw hdf =
     (case sample draw (min 2 (length hdf)) hdf of
        Inl e \<Rightarrow> Inl e
      | Inr s \<Rightarrow> Inr (map Product s))"

definition expiring_sample :: "nat list \<Rightarrow> frame \<Rightarrow> error + string list" where
  "expiring_sample draw edf =
     (case sample draw (min 2 (length edf)) edf of
        Inl e \<Rightarrow> Inl e
      | Inr s \<Rightarrow> Inr (map Product s))"

section \<open>Insight lines (lines 71-78)\<close>

definition digit :: "nat \<Rightarrow> char" where
  "digit d = ''0123456789'' ! d"

text \<open>\<^verbatim>\<open>{n}\<close> in an f-string: the decimal digits of a count.\<close>

fun str_nat :: "nat \<Rightarrow> string" where
  "str_nat n = (if n < 10 then [digit n] else str_nat (n div 10) @ [digit (n mod 10)])"

declare str_nat.simps [simp del]

fun commas :: "nat \<Rightarrow> string" where
  "commas n =
     (if n < 1000 then str_nat n
      else commas (n div 1000) @ '','' @
           [digit (n mod 1000 div 100), digit (n mod 100 div 10), digit (n mod 10)])"

declare commas.simps [simp del]

text \<open>
  \<^verbatim>\<open>{v:,.0f}\<close>: no decimals (rounded half to even), thousands separated by commas,
  a minus sign for a negative value, \<^verbatim>\<open>nan\<close> for NaN.
\<close>

definition format_comma_0f :: "real option \<Rightarrow> string" where
  "format_comma_0f v =
     (case v of
        None \<Rightarrow> ''nan''
      | Some x \<Rightarrow> (if x < 0 then ''-'' else []) @ commas (nat \<bar>round_half_even x\<bar>))"

text \<open>\<^verbatim>\<open>sep.join(xs)\<close>.\<close>

fun join :: "string \<Rightarrow> string list \<Rightarrow> string" where
  "join sep [] = []"
| "join sep [x] = x"
| "join sep (x # y # ys) = x @ sep @ join sep (y # ys)"

definition low_line :: "nat \<Rightarrow> string" where
  "low_line n =
     ''<li><b>'' @ [CHR 0xF0, CHR 0x9F, CHR 0x94, CHR 0xBB] @ '' '' @ str_nat n @
     '' products</b> are critically low on inventory (DOI < 10).</li>''"

definition buyer_line :: "string \<Rightarrow> real option \<Rightarrow> string" where
  "buyer_line b v =
     ''<li><b>'' @ [CHR 0xF0, CHR 0x9F, CHR 0x93, CHR 0xA6] @ '' Buyer '' @ b @
     ''</b> is carrying <b>$'' @ format_comma_0f v @ ''</b> in overstocked items.</li>''"

definition risky_line :: "string list \<Rightarrow> string" where
  "risky_line rs =
     ''<li><b>'' @ [CHR 0xE2, CHR 0x9A, CHR 0xA0, CHR 0xEF, CHR 0xB8, CHR 0x8F] @
     '' High holding cost</b> with low movement detected in SKUs: '' @ join '', '' rs @
     ''.</li>''"

definition expiring_line :: "string list \<Rightarrow> string" where
  "expiring_line es =
     ''<li><b>'' @ [CHR 0xE2, CHR 0x8F, CHR 0xB3] @ '' Expiring soon</b>: '' @
     join '', '' es @ '' within 30 days.</li>''"

text \<open>
  Lines 71 to 78, from the values of \<^verbatim>\<open>low_doi_count\<close>, \<^verbatim>\<open>top_buyer\<close>,
  \<^verbatim>\<open>top_buyer_val\<close>, \<^verbatim>\<open>risky_sample\<close> and \<^verbatim>\<open>expiring_sample\<close>. The first
  \<^verbatim>\<open>append\<close> is under no \<^verbatim>\<open>if\<close>. \<^verbatim>\<open>if top_buyer:\<close> is false for
  \<^verbatim>\<open>None\<close> and for the empty string; \<^verbatim>\<open>if risky_sample:\<close> is false for the
  empty list.
\<close>

definition insight_lines ::
    "nat \<Rightarrow> string option \<Rightarrow> real option \<Rightarrow> string list \<Rightarrow> string list \<Rightarrow> string list" where
  "insight_lines n tb tv rs es =
     (let l0 = [];
          l1 = l0 @ [low_line n];
          l2 = (case tb of
                  None \<Rightarrow> l1
                | Some b \<Rightarrow> if b \<noteq> [] then l1 @ [buyer_line b tv] else l1);
          l3 = (if rs \<noteq> [] then l2 @ [risky_line rs] else l2);
          l4 = (if es \<noteq> [] then l3 @ [expiring_line es] else l3)
      in l4)"

section \<open>Sorting and the first rows (lines 119 and 183)\<close>

text \<open>
  \<^verbatim>\<open>frame.sort_values(by=col, ascending=False)\<close> returns the rows in descending
  order of the column, as a new frame. The call names no \<^verbatim>\<open>kind\<close>, so the order
  comes from the default \<^verbatim>\<open>'quicksort'\<close>, which pandas documents as not stable:
  which of two rows with equal values comes first is the library's choice, and it
  varies with the build of numpy. That choice is the argument \<open>ix\<close>: among rows with
  equal values, a row whose position is listed in \<open>ix\<close> comes before one listed later
  or not at all, and rows not listed keep their order. Every \<open>ix\<close> gives a descending
  order; the empty one gives the stable order.
\<close>

definition tie_order :: "nat list \<Rightarrow> nat \<Rightarrow> nat list" where
  "tie_order ix n = remdups (filter (\<lambda>i. i < n) ix) @ filter (\<lambda>i. i \<notin> set ix) [0..<n]"

definition sort_values_desc :: "('a \<Rightarrow> real) \<Rightarrow> nat list \<Rightarrow> 'a list \<Rightarrow> 'a list" where
  "sort_values_desc col ix df =
     map (\<lambda>i. df ! i) (sort_key (\<lambda>i. - col (df ! i)) (tie_order ix (length df)))"

text \<open>\<^verbatim>\<open>frame.head(n)\<close>.\<close>

definition head :: "nat \<Rightarrow> 'a list \<Rightarrow> 'a list" where
  "head n df = take n df"

text \<open>Line 119.\<close>

definition top_overstock :: "nat list \<Rightarrow> frame \<Rightarrow> frame" where
  "top_overstock ix df = head 10 (sort_values_desc OverstockInventoryValue ix df)"

text \<open>Line 183; the argument is \<^verbatim>\<open>filtered_df\<close>.\<close>

definition top_revenue :: "nat list \<Rightarrow> frame \<Rightarrow> frame" where
  "top_revenue ix fdf = head 10 (sort_values_desc DollarsSold12Mo ix fdf)"

section \<open>The Overview view (lines 50-131)\<close>

text \<open>
  The variables the view binds, with the table \<^verbatim>\<open>df\<close> as it is when the view
  has run. The charts take \<^verbatim>\<open>df\<close> and \<^verbatim>\<open>top_overstock\<close> as their data.
\<close>

record overview_vars =
  ov_df :: frame
  ov_low_doi_df :: frame
  ov_overstock_df :: frame
  ov_expiring_df :: frame
  ov_high_cost_low_sales_df :: frame
  ov_buyers :: "string list"
  ov_low_doi_count :: nat
  ov_top_buyer :: "string option"
  ov_top_buyer_val :: "real option"
  ov_risky_sample :: "string list"
  ov_expiring_sample :: "string list"
  ov_insight_lines :: "string list"
  ov_total_products :: nat
  ov_low_stock :: nat
  ov_total_overstock_value :: real
  ov_total_inventory_value :: real
  ov_top_overstock :: frame

text \<open>
  One render of the view: \<open>gsum\<close> and \<open>ssum\<close> are the library's grouped sum and
  column sum, \<open>today\<close> is the clock's reading, \<open>rdraw\<close> and \<open>edraw\<close> are the positions
  drawn for the two samples, \<open>ix\<close> is the sort's choice among equal values. An
  exception of a statement ends the render.
\<close>

definition overview ::
    "(real list \<Rightarrow> real) \<Rightarrow> (real list \<Rightarrow> real) \<Rightarrow> int \<Rightarrow> nat list \<Rightarrow> nat list \<Rightarrow> nat list \<Rightarrow> frame
       \<Rightarrow> error + overview_vars" where
  "overview gsum ssum today rdraw edraw ix df =
     (let ldf = low_doi_df df;
          odf = overstock_df df;
          edf = expiring_df today df;
          hdf = high_cost_low_sales_df df;
          buyers = unique (map Buyer df);
          n = length ldf
      in case top_buyer gsum odf of
           Inl e \<Rightarrow> Inl e
         | Inr tb \<Rightarrow>
             (let tv = top_buyer_val gsum odf
              in case risky_sample rdraw hdf of
                   Inl e \<Rightarrow> Inl e
                 | Inr rs \<Rightarrow>
                     (case expiring_sample edraw edf of
                        Inl e \<Rightarrow> Inl e
                      | Inr es \<Rightarrow>
                          Inr \<lparr>ov_df = df,
                               ov_low_doi_df = ldf,
                               ov_overstock_df = odf,
                               ov_expiring_df = edf,
                               ov_high_cost_low_sales_df = hdf,
                               ov_buyers = buyers,
                               ov_low_doi_count = n,
                               ov_top_buyer = tb,
                               ov_top_buyer_val = tv,
                               ov_risky_sample = rs,
                               ov_expiring_sample = es,
                               ov_insight_lines = insight_lines n tb tv rs es,
                               ov_total_products = length df,
                               ov_low_stock = length ldf,
                               ov_total_overstock_value = ssum (map OverstockInventoryValue df),
                               ov_total_inventory_value = ssum (map TotalInventoryCost df),
                               ov_top_overstock = top_overstock ix df\<rparr>)))"

section \<open>The Visual Explorer view (lines 133-213)\<close>

text \<open>
  Lines 142 to 148. \<^verbatim>\<open>df.copy()\<close> is a new frame with the same rows; each
  \<^verbatim>\<open>if\<close> replaces \<^verbatim>\<open>filtered_df\<close> by the rows that carry the selected value.
\<close>

definition filtered_df :: "string \<Rightarrow> string \<Rightarrow> string \<Rightarrow> frame \<Rightarrow> frame" where
  "filtered_df selected_warehouse selected_buyer selected_category df =
     (let f0 = df;
          f1 = (if selected_warehouse \<noteq> ''All''
                then getitem_mask f0 (map (\<lambda>r. Warehouse r = selected_warehouse) f0) else f0);
          f2 = (if selected_buyer \<noteq> ''All''
                then getitem_mask f1 (map (\<lambda>r. Buyer r = selected_buyer) f1) else f1);
          f3 = (if selected_category \<noteq> ''All''
                then getitem_mask f2 (map (\<lambda>r. Category r = selected_category) f2) else f2)
      in f3)"

text \<open>Line 204; the argument is \<^verbatim>\<open>filtered_df\<close>.\<close>

definition expiring_soon :: "int \<Rightarrow> frame \<Rightarrow> frame" where
  "expiring_soon today fdf =
     getitem_mask fdf (map (\<lambda>r. ExpiryDate r < today + Timedelta_days 90) fdf)"

text \<open>
  The variables the view binds and the frame each chart is given as its data
  (\<^verbatim>\<open>alt.Chart(filtered_df)\<close>, \<^verbatim>\<open>alt.Chart(top_revenue)\<close>,
  \<^verbatim>\<open>alt.Chart(expiring_soon)\<close>); the expiry chart is drawn only when
  \<^verbatim>\<open>expiring_soon\<close> has rows.
\<close>

record explorer_vars =
  ex_df :: frame
  ex_filtered_df :: frame
  ex_scatter_chart :: frame
  ex_avg_doi_chart :: frame
  ex_cat_chart :: frame
  ex_top_revenue :: frame
  ex_revenue_chart :: frame
  ex_doi_cost_chart :: frame
  ex_expiring_soon :: frame
  ex_expiry_chart :: "frame option"

definition explorer :: "int \<Rightarrow> nat list \<Rightarrow> string \<Rightarrow> string \<Rightarrow> string \<Rightarrow> frame \<Rightarrow> explorer_vars" where
  "explorer today ix selected_warehouse selected_buyer selected_category df =
     (let fdf = filtered_df selected_warehouse selected_buyer selected_category df;
          tr = top_revenue ix fdf;
          es = expiring_soon today fdf
      in \<lparr>ex_df = df,
          ex_filtered_df = fdf,
          ex_scatter_chart = fdf,
          ex_avg_doi_chart = fdf,
          ex_cat_chart = fdf,
          ex_top_revenue = tr,
          ex_revenue_chart = tr,
          ex_doi_cost_chart = fdf,
          ex_expiring_soon = es,
          ex_expiry_chart = (if es \<noteq> [] then Some es else None)\<rparr>)"

section \<open>Top-N selection as the specification words it\<close>

text \<open>
  The specification's top-N selection: a stable sort of the column in descending
  order (rows with equal values keep their original order), then the first \<open>n\<close>
  rows. It is compared with what lines 119 and 183 compute.
\<close>

definition spec_top_n :: "(row \<Rightarrow> real) \<Rightarrow> nat \<Rightarrow> frame \<Rightarrow> frame" where
  "spec_top_n col n df = take n (sort_key (\<lambda>r. - col r) df)"

section \<open>Example tables\<close>

text \<open>
  Three products with DOI 5, 50 and 200, classified as line 48 does. Dates are counted
  from the instant 0, which the examples take as the clock's reading.
\<close>

definition example_df :: frame where
  "example_df =
     [\<lparr>Product = ''P1'', Warehouse = ''W1'', Buyer = ''Ann'', Category = ''Tools'',
       StockQty = 40, AvgLandedCost = 150, TotalInventoryCost = 6000, Last12MoQtySold = 10,
       DOI = 5, OverstockInventoryValue = 0, ExpiryDate = Timedelta_days 10,
       DollarsSold12Mo = 900, DOI_Status = LOW\<rparr>,
      \<lparr>Product = ''P2'', Warehouse = ''W2'', Buyer = ''Ann'', Category = ''Toys'',
       StockQty = 80, AvgLandedCost = 50, TotalInventoryCost = 4000, Last12MoQtySold = 10,
       DOI = 50, OverstockInventoryValue = 1200, ExpiryDate = Timedelta_days 400,
       DollarsSold12Mo = 700, DOI_Status = NORMAL\<rparr>,
      \<lparr>Product = ''P3'', Warehouse = ''W1'', Buyer = ''Bob'', Category = ''Tools'',
       StockQty = 300, AvgLandedCost = 30, TotalInventoryCost = 9000, Last12MoQtySold = 20,
       DOI = 200, OverstockInventoryValue = 2500, ExpiryDate = Timedelta_days 60,
       DollarsSold12Mo = 1500, DOI_Status = OVERSTOCK\<rparr>]"

text \<open>A table whose only product is neither low nor overstocked, costly or expiring.\<close>

definition quiet_df :: frame where
  "quiet_df =
     [\<lparr>Product = ''P1'', Warehouse = ''W1'', Buyer = ''Ann'', Category = ''Tools'',
       StockQty = 40, AvgLandedCost = 10, TotalInventoryCost = 400, Last12MoQtySold = 300,
       DOI = 50, OverstockInventoryValue = 0, ExpiryDate = Timedelta_days 400,
       DollarsSold12Mo = 900, DOI_Status = NORMAL\<rparr>]"

text \<open>
  Eighteen products \<open>P0\<close> to \<open>P17\<close>, none overstocked, so all equal in
  \<^verbatim>\<open>OverstockInventoryValue\<close>, and the order numpy's scalar quicksort leaves
  eighteen equal values in when pandas sorts them in descending order.
\<close>

definition tie_row :: "nat \<Rightarrow> row" where
  "tie_row i =
     \<lparr>Product = ''P'' @ str_nat i, Warehouse = ''W1'', Buyer = ''Ann'', Category = ''Tools'',
      StockQty = 40, AvgLandedCost = 10, TotalInventoryCost = 400, Last12MoQtySold = 300,
      DOI = 50, OverstockInventoryValue = 0, ExpiryDate = Timedelta_days 400,
      DollarsSold12Mo = 900, DOI_Status = NORMAL\<rparr>"

definition tie_df :: frame where
  "tie_df = map tie_row [0, 1, 2, 3, 4, 5, 6, 7, 8, 9, 10, 11, 12, 13, 14, 15, 16, 17]"

definition tie_ix :: "nat list" where
  "tie_ix = [0, 1, 16, 15, 14, 13, 12, 11, 10, 9, 8, 7, 6, 5, 4, 3, 2, 17]"

text \<open>
  Three overstocked products whose values are the doubles that the texts
  \<^verbatim>\<open>0.1\<close>, \<^verbatim>\<open>0.2\<close> and \<^verbatim>\<open>0.30000000000000004\<close> are read as.
\<close>

definition round_row :: "string \<Rightarrow> string \<Rightarrow> real \<Rightarrow> row" where
  "round_row p b v =
     \<lparr>Product = p, Warehouse = ''W1'', Buyer = b, Category = ''Tools'',
      StockQty = 40, AvgLandedCost = 10, TotalInventoryCost = 400, Last12MoQtySold = 300,
      DOI = 200, OverstockInventoryValue = v, ExpiryDate = Timedelta_days 400,
      DollarsSold12Mo = 900, DOI_Status = OVERSTOCK\<rparr>"

definition round_df :: frame where
  "round_df =
     [round_row ''P1'' ''Ann'' (3602879701896397 / 2 ^ 55),
      round_row ''P2'' ''Ann'' (3602879701896397 / 2 ^ 54),
      round_row ''P3'' ''Bob'' (5404319552844596 / 2 ^ 54)]"

text \<open>
  One product that expires at midnight thirty days after the day of the instant 0,
  and the instant 11:36 on that day.
\<close>

definition boundary_df :: frame where
  "boundary_df =
     [\<lparr>Product = ''P1'', Warehouse = ''W1'', Buyer = ''Ann'', Category = ''Tools'',
       StockQty = 40, AvgLandedCost = 10, TotalInventoryCost = 400, Last12MoQtySold = 300,
       DOI = 50, OverstockInventoryValue = 0, ExpiryDate = Timedelta_days 30,
       DollarsSold12Mo = 900, DOI_Status = NORMAL\<rparr>]"

definition late_morning :: int where
  "late_morning = 41760000000000"

section \<open>The classifier: auxiliary facts and claim C1\<close>

lemma get_doi_status_loop_append:
  "get_doi_status_loop dois status = status @ get_doi_status_loop dois []"
proof (induction dois arbitrary: status)
  case Nil
  show ?case by simp
next
  case (Cons doi dois)
  have "get_doi_status_loop (doi # dois) status =
          (status @ get_doi_status_loop [doi] []) @ get_doi_status_loop dois []"
    using Cons.IH [of "status @ [LOW]"] Cons.IH [of "status @ [OVERSTOCK]"]
      Cons.IH [of "status @ [NORMAL]"] by simp
  moreover have "get_doi_status_loop (doi # dois) [] =
          get_doi_status_loop [doi] [] @ get_doi_status_loop dois []"
    using Cons.IH [of "[LOW]"] Cons.IH [of "[OVERSTOCK]"] Cons.IH [of "[NORMAL]"] by simp
  ultimately show ?case by simp
qed

lemma get_doi_status_Cons:
  "get_doi_status (doi # dois) = get_doi_status [doi] @ get_doi_status dois"
  unfolding get_doi_status_def
  using get_doi_status_loop_append [of dois "get_doi_status_loop [doi] []"]
  by simp

lemma labels_distinct: "LOW \<noteq> OVERSTOCK" "LOW \<noteq> NORMAL" "OVERSTOCK \<noteq> NORMAL"
  by (simp_all add: LOW_def OVERSTOCK_def NORMAL_def)

lemma get_doi_status_single:
  "get_doi_status [v] = [if v < 10 then LOW else if v > 180 then OVERSTOCK else NORMAL]"
  by (simp add: get_doi_status_def)

lemma get_doi_status_concat:
  "get_doi_status dois = concat (map (\<lambda>d. get_doi_status [d]) dois)"
proof (induction dois)
  case Nil
  show ?case by (simp add: get_doi_status_def)
next
  case (Cons d ds)
  then show ?case using get_doi_status_Cons [of d ds] by simp
qed

lemma length_get_doi_status: "length (get_doi_status dois) = length dois"
proof (induction dois)
  case Nil
  show ?case by (simp add: get_doi_status_def)
next
  case (Cons d ds)
  then show ?case
    using get_doi_status_Cons [of d ds] by (simp add: get_doi_status_single)
qed

text \<open>
  C1. The classifier is total and gives every value exactly one label: Low iff the
  value is below 10, Overstock iff it is above 180, Normal otherwise (10 and 180
  included; a negative value is Low). On a column it labels each value on its own,
  in order.
\<close>

theorem get_doi_status_classifies:
  "(get_doi_status [v] = [LOW]) = (v < 10)
   \<and> (get_doi_status [v] = [OVERSTOCK]) = (v > 180)
   \<and> (get_doi_status [v] = [NORMAL]) = (10 \<le> v \<and> v \<le> 180)
   \<and> get_doi_status [10] = [NORMAL] \<and> get_doi_status [180] = [NORMAL]
   \<and> get_doi_status [- 1] = [LOW]
   \<and> get_doi_status dois = concat (map (\<lambda>d. get_doi_status [d]) dois)
   \<and> length (get_doi_status dois) = length dois"
  using labels_distinct get_doi_status_concat [of dois] length_get_doi_status [of dois]
  by (auto simp: get_doi_status_single)

section \<open>Rule filters, aggregates and views: auxiliary facts\<close>

lemma getitem_mask_map: "getitem_mask df (map P df) = filter P df"
  by (induction df) (simp_all add: getitem_mask_def)

lemma mask_and_map: "mask_and (map P df) (map Q df) = map (\<lambda>r. P r \<and> Q r) df"
  by (induction df) (simp_all add: mask_and_def)

lemma low_doi_df_filter: "low_doi_df df = filter (\<lambda>r. DOI r < 10) df"
  by (simp add: low_doi_df_def getitem_mask_map)

lemma overstock_df_filter: "overstock_df df = filter (\<lambda>r. OverstockInventoryValue r > 0) df"
  by (simp add: overstock_df_def getitem_mask_map)

lemma expiring_df_filter:
  "expiring_df today df = filter (\<lambda>r. ExpiryDate r < today + Timedelta_days 30) df"
  by (simp add: expiring_df_def getitem_mask_map)

lemma expiring_soon_filter:
  "expiring_soon today fdf = filter (\<lambda>r. ExpiryDate r < today + Timedelta_days 90) fdf"
  by (simp add: expiring_soon_def getitem_mask_map)

lemma high_cost_low_sales_df_filter:
  "high_cost_low_sales_df df =
     filter (\<lambda>r. TotalInventoryCost r > 5000 \<and> Last12MoQtySold r < 50) df"
  by (simp add: high_cost_low_sales_df_def mask_and_map getitem_mask_map)

lemma get_doi_status_map:
  "get_doi_status dois =
     map (\<lambda>v. if v < 10 then LOW else if v > 180 then OVERSTOCK else NORMAL) dois"
proof (induction dois)
  case Nil
  show ?case by (simp add: get_doi_status_def)
next
  case (Cons d ds)
  then show ?case using get_doi_status_Cons [of d ds] by (simp add: get_doi_status_single)
qed

lemma zip_map_same: "zip xs (map f xs) = map (\<lambda>x. (x, f x)) xs"
  by (induction xs) simp_all

lemma classified_rows:
  "classified loaded =
     Inr (map (\<lambda>p. product.extend p
                 (row.fields (if DOI p < 10 then LOW else if DOI p > 180 then OVERSTOCK else NORMAL)))
            loaded)"
  by (simp add: classified_def setitem_DOI_Status_def get_doi_status_map zip_map_same comp_def)

lemma extend_fields:
  "DOI (product.extend p (row.fields s)) = DOI p"
  "DOI_Status (product.extend p (row.fields s)) = s"
  "product.truncate (product.extend p (row.fields s)) = p"
  by (simp_all add: product.defs row.defs)

lemma label_LOW_iff:
  "((if v < 10 then LOW else if v > 180 then OVERSTOCK else NORMAL) = LOW) = (v < (10::real))"
  using labels_distinct by auto

lemma idxmax_from_mem: "idxmax_from best s \<in> set (best # s)"
  by (induction s arbitrary: best) (auto split: if_splits)

lemma idxmax_from_ge: "kv \<in> set (best # s) \<Longrightarrow> snd kv \<le> snd (idxmax_from best s)"
proof (induction s arbitrary: best kv)
  case Nil
  then show ?case by simp
next
  case (Cons x s)
  let ?b = "if snd x > snd best then x else best"
  have b: "snd best \<le> snd ?b" "snd x \<le> snd ?b" by auto
  have "snd ?b \<le> snd (idxmax_from ?b s)" using Cons.IH [of ?b ?b] by simp
  moreover have "kv \<in> set s \<Longrightarrow> snd kv \<le> snd (idxmax_from ?b s)"
    using Cons.IH [of kv ?b] by simp
  ultimately show ?case using Cons.prems b by (cases "kv \<in> set s") auto
qed

lemma fold_max_idxmax_from:
  "fold (\<lambda>kv m. max (snd kv) m) s (snd best) = snd (idxmax_from best s)"
proof (induction s arbitrary: best)
  case Nil
  show ?case by simp
next
  case (Cons x s)
  let ?b = "if snd x > snd best then x else best"
  have "max (snd x) (snd best) = snd ?b" by auto
  then show ?case using Cons.IH [of ?b] by simp
qed

lemma set_groupby_sum:
  "set (groupby_sum gsum key col df) =
     (\<lambda>k. (k, gsum (map col (filter (\<lambda>r. key r = k) df)))) ` key ` set df"
  by (simp add: groupby_sum_def)

lemma groupby_sum_Nil_iff: "(groupby_sum gsum key col df = []) = (df = [])"
proof -
  have "(sort (remdups (map key df)) = []) = (df = [])"
    by (metis length_0_conv length_sort remdups_eq_nil_iff map_is_Nil_conv)
  then show ?thesis by (simp add: groupby_sum_def)
qed

lemma sample_min_ok:
  "sample draw (min k (length df)) df = Inr (map (\<lambda>i. df ! i) draw)"
  by (simp add: sample_def)

lemma tie_order_perm: "mset (tie_order ix n) = mset [0..<n]"
proof -
  have d: "distinct (tie_order ix n)" by (auto simp: tie_order_def)
  have s: "set (tie_order ix n) = set [0..<n]" by (auto simp: tie_order_def)
  have "distinct [0..<n]" by simp
  then show ?thesis using d s set_eq_iff_mset_eq_distinct by blast
qed

lemma sort_values_desc_mset: "mset (sort_values_desc col ix df) = mset df"
proof -
  let ?ix = "sort_key (\<lambda>i. - col (df ! i)) (tie_order ix (length df))"
  have "mset ?ix = mset [0..<length df]" by (simp add: tie_order_perm)
  then have "image_mset (\<lambda>i. df ! i) (mset ?ix) = image_mset (\<lambda>i. df ! i) (mset [0..<length df])"
    by simp
  then have "mset (map (\<lambda>i. df ! i) ?ix) = mset (map (\<lambda>i. df ! i) [0..<length df])"
    by simp
  then show ?thesis by (simp add: sort_values_desc_def map_nth)
qed

lemma sort_values_desc_sorted:
  "sorted_wrt (\<lambda>a b. col b \<le> col a) (sort_values_desc col ix df)"
proof -
  have "sorted (map (\<lambda>i. - col (df ! i))
          (sort_key (\<lambda>i. - col (df ! i)) (tie_order ix (length df))))"
    by (rule sorted_sort_key)
  then show ?thesis by (simp add: sort_values_desc_def sorted_map sorted_wrt_map)
qed

lemma sort_values_desc_sorted_map:
  "sorted (map (\<lambda>r. - col r) (sort_values_desc col ix df))"
  using sort_values_desc_sorted [of col ix df] by (simp add: sorted_map)

lemma filter_key_singleton:
  "distinct (map f zs) \<Longrightarrow> k \<in> set zs \<Longrightarrow> filter (\<lambda>x. f k = f x) zs = [k]"
proof (induction zs)
  case Nil
  then show ?case by simp
next
  case (Cons z zs)
  show ?case
  proof (cases "k = z")
    case True
    have "filter (\<lambda>x. f z = f x) zs = []" using Cons.prems(1) by (auto simp: filter_empty_conv)
    then show ?thesis using True by simp
  next
    case False
    then have "k \<in> set zs" using Cons.prems(2) by simp
    moreover have "f z \<notin> f ` set zs" using Cons.prems(1) by simp
    ultimately have "f k \<noteq> f z" by (metis imageI)
    then show ?thesis using Cons \<open>k \<in> set zs\<close> by simp
  qed
qed

lemma sort_values_desc_distinct:
  assumes "distinct (map col df)"
  shows "sort_values_desc col ix df = sort_key (\<lambda>r. - col r) df"
proof -
  let ?ys = "sort_values_desc col ix df"
  have m: "mset ?ys = mset df" by (rule sort_values_desc_mset)
  then have "mset (map col ?ys) = mset (map col df)" by simp
  then have dy: "distinct (map col ?ys)" using assms mset_eq_imp_distinct_iff by blast
  have fl: "filter (\<lambda>x. - col k = - col x) ?ys = filter (\<lambda>x. - col k = - col x) df"
    if "k \<in> set ?ys" for k
  proof -
    have "k \<in> set df" using that m mset_eq_setD by blast
    then show ?thesis
      using filter_key_singleton [OF dy that] filter_key_singleton [OF assms] by simp
  qed
  show ?thesis
    using properties_for_sort_key [OF m fl sort_values_desc_sorted_map] by simp
qed

lemma sort_values_desc_stable:
  "sort_values_desc col [] df = sort_key (\<lambda>r. - col r) df"
proof -
  let ?g = "\<lambda>i. - col (df ! i)"
  let ?ys = "sort_values_desc col [] df"
  have ys: "?ys = map (\<lambda>i. df ! i) (sort_key ?g [0..<length df])"
    by (simp add: sort_values_desc_def tie_order_def)
  have m: "mset ?ys = mset df" by (rule sort_values_desc_mset)
  have fl: "filter (\<lambda>x. - col k = - col x) ?ys = filter (\<lambda>x. - col k = - col x) df" for k
  proof -
    have "filter (\<lambda>x. - col x = - col k) ?ys =
            map (\<lambda>i. df ! i) (filter (\<lambda>i. ?g i = - col k) (sort_key ?g [0..<length df]))"
      unfolding ys by (simp add: filter_map comp_def)
    also have "\<dots> = map (\<lambda>i. df ! i) (filter (\<lambda>i. ?g i = - col k) [0..<length df])"
      by (simp only: sort_key_stable)
    also have "\<dots> = filter (\<lambda>x. - col x = - col k) (map (\<lambda>i. df ! i) [0..<length df])"
      by (simp add: filter_map comp_def)
    also have "\<dots> = filter (\<lambda>x. - col x = - col k) df" by (simp add: map_nth)
    finally show ?thesis by (simp add: eq_commute)
  qed
  show ?thesis
    using properties_for_sort_key [OF m fl sort_values_desc_sorted_map] by simp
qed

lemma sorted_wrt_take_drop:
  assumes "sorted_wrt R xs" "a \<in> set (take n xs)" "b \<in> set (drop n xs)"
  shows "R a b"
proof -
  have "sorted_wrt R (take n xs @ drop n xs)" using assms(1) by simp
  then show ?thesis using assms(2,3) unfolding sorted_wrt_append by blast
qed

lemma filtered_df_filter:
  "filtered_df w b c df =
     filter (\<lambda>r. (w = ''All'' \<or> Warehouse r = w) \<and> (b = ''All'' \<or> Buyer r = b)
                 \<and> (c = ''All'' \<or> Category r = c)) df"
  by (auto simp: filtered_df_def Let_def getitem_mask_map intro: filter_cong)

lemma filtered_df_restrict:
  "W \<noteq> ''All'' \<Longrightarrow>
     filtered_df W b c df = filtered_df ''All'' b c (filter (\<lambda>r. Warehouse r = W) df)"
  by (auto simp: filtered_df_filter intro: filter_cong)

lemma top_buyer_Inr: "\<exists>tb. top_buyer gsum odf = Inr tb"
proof (cases "groupby_sum gsum Buyer OverstockInventoryValue odf")
  case Nil
  then show ?thesis using groupby_sum_Nil_iff [of gsum Buyer OverstockInventoryValue odf]
    by (simp add: top_buyer_def)
next
  case (Cons kv s)
  then show ?thesis by (simp add: top_buyer_def idxmax_def)
qed

lemma overview_fields:
  "\<exists>v. overview gsum ssum today rdraw edraw ix df = Inr v
       \<and> ov_df v = df
       \<and> ov_low_doi_df v = low_doi_df df
       \<and> ov_overstock_df v = overstock_df df
       \<and> ov_expiring_df v = expiring_df today df
       \<and> ov_high_cost_low_sales_df v = high_cost_low_sales_df df
       \<and> ov_low_doi_count v = length (low_doi_df df)
       \<and> ov_low_stock v = length (low_doi_df df)
       \<and> ov_top_overstock v = top_overstock ix df"
proof -
  obtain tb where tb: "top_buyer gsum (overstock_df df) = Inr tb" using top_buyer_Inr by blast
  show ?thesis
    by (simp add: overview_def Let_def tb risky_sample_def expiring_sample_def sample_min_ok)
qed

lemma set_sort_values_desc: "set (sort_values_desc col ix df) = set df"
  using sort_values_desc_mset [of col ix df] mset_eq_setD by blast

lemma float64_exact:
  "float64 0 = 0"
  "float64 (3602879701896397 / 36028797018963968) = 3602879701896397 / 36028797018963968"
  "float64 (3602879701896397 / 18014398509481984) = 3602879701896397 / 18014398509481984"
  "float64 (1351079888211149 / 4503599627370496) = 1351079888211149 / 4503599627370496"
  "float64 1200 = 1200"
  "float64 2500 = 2500"
  by (simp_all add: float64_def float64_exponent.simps pow2_def round_half_even_def)

lemma float64_rounds:
  "float64 (10808639105689191 / 36028797018963968) = 1351079888211149 / 4503599627370496"
  by (simp add: float64_def float64_exponent.simps pow2_def round_half_even_def)

section \<open>The claims\<close>

text \<open>
  C2, as stated, fails. In \<open>round_df\<close> Ann's two values add up to less than Bob's
  one value, yet their \<^verbatim>\<open>float64\<close> sum rounds up to Bob's value: the grouped sums
  tie, the first of them is taken, and line 66 names Ann, with a value that is not
  the sum of her rows.
\<close>

theorem top_buyer_rounded_sum_counterexample:
  "overstock_df round_df = round_df
   \<and> top_buyer float64_sum round_df = Inr (Some ''Ann'')
   \<and> top_buyer_val float64_sum round_df = Some (5404319552844596 / 2 ^ 54)
   \<and> sum_list (map OverstockInventoryValue (filter (\<lambda>q. Buyer q = ''Ann'') round_df))
       = 10808639105689191 / 2 ^ 55
   \<and> sum_list (map OverstockInventoryValue (filter (\<lambda>q. Buyer q = ''Bob'') round_df))
       = 5404319552844596 / 2 ^ 54
   \<and> sum_list (map OverstockInventoryValue (filter (\<lambda>q. Buyer q = ''Ann'') round_df))
       < sum_list (map OverstockInventoryValue (filter (\<lambda>q. Buyer q = ''Bob'') round_df))"
proof -
  have 1: "overstock_df round_df = round_df"
    by (simp add: overstock_df_filter round_df_def round_row_def)
  have ann: "float64_sum [3602879701896397 / 36028797018963968,
                          3602879701896397 / 18014398509481984]
             = 1351079888211149 / 4503599627370496"
    by (simp add: float64_sum_def Let_def float64_exact float64_rounds)
  have bob: "float64_sum [1351079888211149 / 4503599627370496]
             = 1351079888211149 / 4503599627370496"
    by (simp add: float64_sum_def Let_def float64_exact)
  have g: "groupby_sum float64_sum Buyer OverstockInventoryValue round_df =
             [(''Ann'', 1351079888211149 / 4503599627370496),
              (''Bob'', 1351079888211149 / 4503599627370496)]"
    by (simp add: groupby_sum_def round_df_def round_row_def ann bob)
  have ne: "round_df \<noteq> []" by (simp add: round_df_def)
  have 2: "top_buyer float64_sum round_df = Inr (Some ''Ann'')"
    by (simp add: top_buyer_def ne g idxmax_def)
  have 3: "top_buyer_val float64_sum round_df = Some (5404319552844596 / 2 ^ 54)"
    by (simp add: top_buyer_val_def ne g series_max_def)
  have 4: "sum_list (map OverstockInventoryValue (filter (\<lambda>q. Buyer q = ''Ann'') round_df))
       = 10808639105689191 / 2 ^ 55"
    by (simp add: round_df_def round_row_def)
  have 5: "sum_list (map OverstockInventoryValue (filter (\<lambda>q. Buyer q = ''Bob'') round_df))
       = 5404319552844596 / 2 ^ 54"
    by (simp add: round_df_def round_row_def)
  have 6: "sum_list (map OverstockInventoryValue (filter (\<lambda>q. Buyer q = ''Ann'') round_df))
       < sum_list (map OverstockInventoryValue (filter (\<lambda>q. Buyer q = ''Bob'') round_df))"
    unfolding 4 5 by simp
  show ?thesis using 1 2 3 4 5 6 by blast
qed

text \<open>
  C2, amended. The top buyer is the sentinel (\<^verbatim>\<open>None\<close>, with the value 0) iff the
  subset is empty, and lines 66 and 67 never raise. For a subset with rows the result
  is a buyer of the subset, the value is the sum of \<^verbatim>\<open>OverstockInventoryValue\<close> over
  that buyer's rows as the library computes it, in the arithmetic of the column, and no
  buyer's rows have a greater computed sum. Where the computed sums are the exact
  ones, the value is the arithmetic sum and no buyer's rows sum to more.
\<close>

theorem top_buyer_sentinel_and_maximum:
  "(top_buyer gsum odf = Inr None) = (odf = [])
   \<and> (if odf = [] then top_buyer_val gsum odf = Some 0
      else \<exists>b. top_buyer gsum odf = Inr (Some b) \<and> b \<in> Buyer ` set odf
           \<and> top_buyer_val gsum odf =
               Some (gsum (map OverstockInventoryValue (filter (\<lambda>q. Buyer q = b) odf)))
           \<and> (\<forall>r\<in>set odf.
                 gsum (map OverstockInventoryValue (filter (\<lambda>q. Buyer q = Buyer r) odf))
                 \<le> gsum (map OverstockInventoryValue (filter (\<lambda>q. Buyer q = b) odf)))
           \<and> ((\<forall>r\<in>set odf.
                  gsum (map OverstockInventoryValue (filter (\<lambda>q. Buyer q = Buyer r) odf))
                  = sum_list (map OverstockInventoryValue (filter (\<lambda>q. Buyer q = Buyer r) odf)))
                \<longrightarrow> top_buyer_val gsum odf =
                      Some (sum_list (map OverstockInventoryValue (filter (\<lambda>q. Buyer q = b) odf)))
                    \<and> (\<forall>r\<in>set odf.
                          sum_list (map OverstockInventoryValue (filter (\<lambda>q. Buyer q = Buyer r) odf))
                          \<le> sum_list (map OverstockInventoryValue (filter (\<lambda>q. Buyer q = b) odf)))))"
proof (cases "odf = []")
  case True
  then show ?thesis by (simp add: top_buyer_def top_buyer_val_def)
next
  case False
  let ?tot = "\<lambda>k. gsum (map OverstockInventoryValue (filter (\<lambda>q. Buyer q = k) odf))"
  let ?sum = "\<lambda>k. sum_list (map OverstockInventoryValue (filter (\<lambda>q. Buyer q = k) odf))"
  let ?s = "groupby_sum gsum Buyer OverstockInventoryValue odf"
  from False obtain kv s' where s: "?s = kv # s'"
    using groupby_sum_Nil_iff [of gsum Buyer OverstockInventoryValue odf] by (cases ?s) auto
  let ?best = "idxmax_from kv s'"
  have mem: "?best \<in> set ?s" using idxmax_from_mem [of kv s'] s by simp
  then obtain r0 where r0: "r0 \<in> set odf" "?best = (Buyer r0, ?tot (Buyer r0))"
    unfolding set_groupby_sum by auto
  have tb: "top_buyer gsum odf = Inr (Some (fst ?best))"
    using False s by (simp add: top_buyer_def idxmax_def)
  have tv: "top_buyer_val gsum odf = Some (snd ?best)"
    using False s fold_max_idxmax_from [of s' kv] by (simp add: top_buyer_val_def series_max_def)
  have ge: "?tot (Buyer r) \<le> snd ?best" if "r \<in> set odf" for r
  proof -
    have "(Buyer r, ?tot (Buyer r)) \<in> set ?s"
      using that by (auto simp: set_groupby_sum image_iff)
    then have "(Buyer r, ?tot (Buyer r)) \<in> set (kv # s')" using s by simp
    from idxmax_from_ge [OF this] show ?thesis by simp
  qed
  have a: "top_buyer gsum odf = Inr (Some (Buyer r0))" using tb r0 by simp
  have b: "Buyer r0 \<in> Buyer ` set odf" using r0 by simp
  have c: "top_buyer_val gsum odf = Some (?tot (Buyer r0))" using tv r0 by simp
  have d: "\<forall>r\<in>set odf. ?tot (Buyer r) \<le> ?tot (Buyer r0)" using ge r0 by simp
  have e: "top_buyer_val gsum odf = Some (?sum (Buyer r0))
           \<and> (\<forall>r\<in>set odf. ?sum (Buyer r) \<le> ?sum (Buyer r0))"
    if ex: "\<forall>r\<in>set odf. ?tot (Buyer r) = ?sum (Buyer r)"
  proof -
    have "?tot (Buyer r0) = ?sum (Buyer r0)" using ex r0 by blast
    moreover have "?sum (Buyer r) \<le> ?sum (Buyer r0)" if "r \<in> set odf" for r
      using d ex that r0 by (metis (no_types, lifting))
    ultimately show ?thesis using c by simp
  qed
  have "\<exists>b. top_buyer gsum odf = Inr (Some b) \<and> b \<in> Buyer ` set odf
        \<and> top_buyer_val gsum odf = Some (?tot b)
        \<and> (\<forall>r\<in>set odf. ?tot (Buyer r) \<le> ?tot b)
        \<and> ((\<forall>r\<in>set odf. ?tot (Buyer r) = ?sum (Buyer r))
             \<longrightarrow> top_buyer_val gsum odf = Some (?sum b)
                 \<and> (\<forall>r\<in>set odf. ?sum (Buyer r) \<le> ?sum b))"
    using a b c d e by blast
  moreover have "top_buyer gsum odf \<noteq> Inr None" using tb by simp
  ultimately show ?thesis using False by simp
qed

text \<open>
  C2, amended, at the two overstocked products of the example, summed as
  \<^verbatim>\<open>float64\<close>: Ann carries 1200, Bob 2500.
\<close>

theorem top_buyer_sentinel_and_maximum_witness:
  "top_buyer float64_sum (overstock_df example_df) = Inr (Some ''Bob'')
   \<and> top_buyer_val float64_sum (overstock_df example_df) = Some 2500
   \<and> overstock_df example_df \<noteq> []"
proof -
  have o: "overstock_df example_df = [example_df ! 1, example_df ! 2]"
    by (simp add: overstock_df_filter example_df_def)
  have s: "float64_sum [1200] = 1200" "float64_sum [2500] = 2500"
    by (simp_all add: float64_sum_def Let_def float64_exact)
  have g: "groupby_sum float64_sum Buyer OverstockInventoryValue (overstock_df example_df) =
             [(''Ann'', 1200), (''Bob'', 2500)]"
    unfolding o by (simp add: groupby_sum_def example_df_def s)
  have ne: "overstock_df example_df \<noteq> []" unfolding o by simp
  have 1: "top_buyer float64_sum (overstock_df example_df) = Inr (Some ''Bob'')"
    by (simp add: top_buyer_def ne g idxmax_def)
  have 2: "top_buyer_val float64_sum (overstock_df example_df) = Some 2500"
    by (simp add: top_buyer_val_def ne g series_max_def)
  show ?thesis
    using top_buyer_sentinel_and_maximum [of float64_sum "overstock_df example_df"] 1 2 ne
    by simp
qed

text \<open>
  C3. The low-stock line is appended under no condition: on a table with no product
  below DOI 10 the view still emits it, reading "0 products", as its only line. The
  three other lines are left out when their inputs are empty.
\<close>

theorem low_stock_line_emitted_on_empty_subset:
  "low_doi_df quiet_df = []
   \<and> map_sum id ov_insight_lines (overview gsum ssum 0 [] [] [0] quiet_df) = Inr [low_line 0]
   \<and> low_line 0 = ''<li><b>'' @ [CHR 0xF0, CHR 0x9F, CHR 0x94, CHR 0xBB] @
        '' 0 products</b> are critically low on inventory (DOI < 10).</li>''
   \<and> hd (insight_lines n tb tv rs es) = low_line n
   \<and> insight_lines n None tv [] [] = [low_line n]"
proof -
  have 1: "low_doi_df quiet_df = []"
    by (simp add: low_doi_df_filter quiet_df_def)
  have 2: "map_sum id ov_insight_lines (overview gsum ssum 0 [] [] [0] quiet_df) = Inr [low_line 0]"
    by (simp add: overview_def Let_def low_doi_df_filter overstock_df_filter expiring_df_filter
        high_cost_low_sales_df_filter quiet_df_def top_buyer_def top_buyer_val_def
        risky_sample_def expiring_sample_def sample_def insight_lines_def Timedelta_days_def)
  have 3: "low_line 0 = ''<li><b>'' @ [CHR 0xF0, CHR 0x9F, CHR 0x94, CHR 0xBB] @
        '' 0 products</b> are critically low on inventory (DOI < 10).</li>''"
    by (simp add: low_line_def str_nat.simps digit_def)
  have 4: "hd (insight_lines n tb tv rs es) = low_line n"
    by (simp add: insight_lines_def Let_def split: option.splits)
  have 5: "insight_lines n None tv [] [] = [low_line n]"
    by (simp add: insight_lines_def)
  show ?thesis using 1 2 3 4 5 by blast
qed

text \<open>
  C4, as stated, fails. The eighteen products of \<open>tie_df\<close> are equal in
  \<^verbatim>\<open>OverstockInventoryValue\<close>, so a stable sort keeps them in place and the top
  ten are \<open>P0\<close> to \<open>P9\<close>. In the order \<open>tie_ix\<close>, which the default sort kind leaves
  them in, the top ten of line 119 are other products.
\<close>

theorem top_n_not_stable_counterexample:
  "map Product (top_overstock tie_ix tie_df) =
       [''P0'', ''P1'', ''P16'', ''P15'', ''P14'', ''P13'', ''P12'', ''P11'', ''P10'', ''P9'']
   \<and> map Product (spec_top_n OverstockInventoryValue 10 tie_df) =
       [''P0'', ''P1'', ''P2'', ''P3'', ''P4'', ''P5'', ''P6'', ''P7'', ''P8'', ''P9'']
   \<and> top_overstock tie_ix tie_df \<noteq> spec_top_n OverstockInventoryValue 10 tie_df"
proof -
  have 2: "map Product (top_overstock tie_ix tie_df) =
       [''P0'', ''P1'', ''P16'', ''P15'', ''P14'', ''P13'', ''P12'', ''P11'', ''P10'', ''P9'']"
    by (simp add: top_overstock_def head_def sort_values_desc_def tie_order_def tie_df_def
        tie_ix_def tie_row_def str_nat.simps digit_def)
  have 3: "map Product (spec_top_n OverstockInventoryValue 10 tie_df) =
       [''P0'', ''P1'', ''P2'', ''P3'', ''P4'', ''P5'', ''P6'', ''P7'', ''P8'', ''P9'']"
    by (simp add: spec_top_n_def tie_df_def tie_row_def str_nat.simps digit_def)
  have "map Product (top_overstock tie_ix tie_df)
        \<noteq> map Product (spec_top_n OverstockInventoryValue 10 tie_df)"
    unfolding 2 3 by simp
  then have 4: "top_overstock tie_ix tie_df \<noteq> spec_top_n OverstockInventoryValue 10 tie_df"
    by auto
  show ?thesis using 2 3 4 by blast
qed

text \<open>
  C4, amended. Whatever the sort does with rows of equal value, the sorted frame holds
  the rows of the table, each as often as the table does, in descending order of the
  named column. Line 119 takes its first ten rows by \<^verbatim>\<open>OverstockInventoryValue\<close>
  and line 183 by \<^verbatim>\<open>12MoDollarsSold\<close> (all rows when there are fewer), in
  descending order, and no row left out has a greater value than a row taken. Where
  no two rows have equal values, and where the sort keeps rows of equal value in
  place, the result is the stable top ten; otherwise which rows of equal value come
  first is not fixed.
\<close>

theorem top_n_descending_prefix:
  "mset (sort_values_desc col ix df) = mset df
   \<and> sorted_wrt (\<lambda>a b. col b \<le> col a) (sort_values_desc col ix df)
   \<and> top_overstock ix df = take 10 (sort_values_desc OverstockInventoryValue ix df)
   \<and> top_revenue ix fdf = take 10 (sort_values_desc DollarsSold12Mo ix fdf)
   \<and> length (top_overstock ix df) = min 10 (length df)
   \<and> length (top_revenue ix fdf) = min 10 (length fdf)
   \<and> sorted_wrt (\<lambda>a b. OverstockInventoryValue b \<le> OverstockInventoryValue a)
        (top_overstock ix df)
   \<and> sorted_wrt (\<lambda>a b. DollarsSold12Mo b \<le> DollarsSold12Mo a) (top_revenue ix fdf)
   \<and> (\<forall>a\<in>set (top_overstock ix df).
        \<forall>b\<in>set (drop 10 (sort_values_desc OverstockInventoryValue ix df)).
          OverstockInventoryValue b \<le> OverstockInventoryValue a)
   \<and> (\<forall>a\<in>set (top_revenue ix fdf).
        \<forall>b\<in>set (drop 10 (sort_values_desc DollarsSold12Mo ix fdf)).
          DollarsSold12Mo b \<le> DollarsSold12Mo a)
   \<and> (distinct (map OverstockInventoryValue df) \<longrightarrow>
        top_overstock ix df = spec_top_n OverstockInventoryValue 10 df)
   \<and> (distinct (map DollarsSold12Mo fdf) \<longrightarrow>
        top_revenue ix fdf = spec_top_n DollarsSold12Mo 10 fdf)
   \<and> top_overstock [] df = spec_top_n OverstockInventoryValue 10 df
   \<and> top_revenue [] fdf = spec_top_n DollarsSold12Mo 10 fdf"
proof -
  have l: "length (take 10 (sort_values_desc c i d)) = min 10 (length d)"
    for c :: "row \<Rightarrow> real" and i d
  proof -
    have "length (sort_values_desc c i d) = length d"
      using sort_values_desc_mset [of c i d] mset_eq_length by blast
    then show ?thesis by (simp add: min_def)
  qed
  have s: "sorted_wrt (\<lambda>a b. c b \<le> c a) (take 10 (sort_values_desc c i d))"
    for c :: "row \<Rightarrow> real" and i d
    using sort_values_desc_sorted [of c i d] sorted_wrt_take by blast
  have t: "\<forall>a\<in>set (take 10 (sort_values_desc c i d)).
             \<forall>b\<in>set (drop 10 (sort_values_desc c i d)). c b \<le> c a"
    for c :: "row \<Rightarrow> real" and i d
    using sorted_wrt_take_drop [OF sort_values_desc_sorted [of c i d]] by blast
  have o: "top_overstock i d = take 10 (sort_values_desc OverstockInventoryValue i d)" for i d
    by (simp add: top_overstock_def head_def)
  have r: "top_revenue i d = take 10 (sort_values_desc DollarsSold12Mo i d)" for i d
    by (simp add: top_revenue_def head_def)
  have 1: "mset (sort_values_desc col ix df) = mset df" by (rule sort_values_desc_mset)
  have 2: "sorted_wrt (\<lambda>a b. col b \<le> col a) (sort_values_desc col ix df)"
    by (rule sort_values_desc_sorted)
  have 5: "length (top_overstock ix df) = min 10 (length df)"
    unfolding o by (rule l)
  have 6: "length (top_revenue ix fdf) = min 10 (length fdf)"
    unfolding r by (rule l)
  have 7: "sorted_wrt (\<lambda>a b. OverstockInventoryValue b \<le> OverstockInventoryValue a)
        (top_overstock ix df)"
    unfolding o by (rule s)
  have 8: "sorted_wrt (\<lambda>a b. DollarsSold12Mo b \<le> DollarsSold12Mo a) (top_revenue ix fdf)"
    unfolding r by (rule s)
  have 9: "\<forall>a\<in>set (top_overstock ix df).
        \<forall>b\<in>set (drop 10 (sort_values_desc OverstockInventoryValue ix df)).
          OverstockInventoryValue b \<le> OverstockInventoryValue a"
    unfolding o by (rule t)
  have 10: "\<forall>a\<in>set (top_revenue ix fdf).
        \<forall>b\<in>set (drop 10 (sort_values_desc DollarsSold12Mo ix fdf)).
          DollarsSold12Mo b \<le> DollarsSold12Mo a"
    unfolding r by (rule t)
  have 11: "distinct (map OverstockInventoryValue df) \<longrightarrow>
        top_overstock ix df = spec_top_n OverstockInventoryValue 10 df"
    unfolding o by (simp add: spec_top_n_def sort_values_desc_distinct)
  have 12: "distinct (map DollarsSold12Mo fdf) \<longrightarrow>
        top_revenue ix fdf = spec_top_n DollarsSold12Mo 10 fdf"
    unfolding r by (simp add: spec_top_n_def sort_values_desc_distinct)
  have 13: "top_overstock [] df = spec_top_n OverstockInventoryValue 10 df"
    unfolding o by (simp add: spec_top_n_def sort_values_desc_stable)
  have 14: "top_revenue [] fdf = spec_top_n DollarsSold12Mo 10 fdf"
    unfolding r by (simp add: spec_top_n_def sort_values_desc_stable)
  show ?thesis
    using 1 2 o [of ix df] r [of ix fdf] 5 6 7 8 9 10 11 12 13 14 by blast
qed

text \<open>
  C4, amended, at the example table, whose three overstock values differ: whatever
  the sort prefers, the top ten are the stable ones, P3, P2, P1.
\<close>

theorem top_n_descending_prefix_witness:
  "distinct (map OverstockInventoryValue example_df)
   \<and> top_overstock [0, 1, 2] example_df = spec_top_n OverstockInventoryValue 10 example_df
   \<and> map Product (top_overstock [0, 1, 2] example_df) = [''P3'', ''P2'', ''P1'']
   \<and> length (top_overstock [0, 1, 2] example_df) = 3"
proof -
  have d: "distinct (map OverstockInventoryValue example_df)"
    by (simp add: example_df_def)
  have l: "min 10 (length example_df) = 3" by (simp add: example_df_def)
  have p: "map Product (spec_top_n OverstockInventoryValue 10 example_df) = [''P3'', ''P2'', ''P1'']"
    by (simp add: spec_top_n_def example_df_def)
  from top_n_descending_prefix [of OverstockInventoryValue "[0, 1, 2]" example_df example_df] d
  have e: "top_overstock [0, 1, 2] example_df = spec_top_n OverstockInventoryValue 10 example_df"
    and n: "length (top_overstock [0, 1, 2] example_df) = min 10 (length example_df)"
    by blast+
  show ?thesis using d e n p unfolding l by simp
qed

text \<open>
  C5. Both samples ask for \<open>min 2\<close> of the subset's size, so neither raises, on any
  subset. Each returns at most \<open>min 2\<close> of the subset's size product names, all of
  products of the subset, and returns none iff the subset is empty.
\<close>

theorem samples_bounded_and_total:
  assumes "valid_draw rdraw (min 2 (length hdf)) (length hdf)"
      and "valid_draw edraw (min 2 (length edf)) (length edf)"
  shows "\<exists>rs es. risky_sample rdraw hdf = Inr rs \<and> expiring_sample edraw edf = Inr es
           \<and> length rs \<le> min 2 (length hdf) \<and> length es \<le> min 2 (length edf)
           \<and> (rs = []) = (hdf = []) \<and> (es = []) = (edf = [])
           \<and> set rs \<subseteq> Product ` set hdf \<and> set es \<subseteq> Product ` set edf"
proof -
  have r: "risky_sample rdraw hdf = Inr (map Product (map (\<lambda>i. hdf ! i) rdraw))"
    by (simp add: risky_sample_def sample_min_ok)
  have e: "expiring_sample edraw edf = Inr (map Product (map (\<lambda>i. edf ! i) edraw))"
    by (simp add: expiring_sample_def sample_min_ok)
  have lr: "length rdraw = min 2 (length hdf)" and le: "length edraw = min 2 (length edf)"
    using assms by (simp_all add: valid_draw_def)
  have ir: "\<And>i. i \<in> set rdraw \<Longrightarrow> i < length hdf" and ie: "\<And>i. i \<in> set edraw \<Longrightarrow> i < length edf"
    using assms by (simp_all add: valid_draw_def list_all_iff)
  have "(rdraw = []) = (hdf = [])" using lr by (cases hdf; cases rdraw) auto
  moreover have "(edraw = []) = (edf = [])" using le by (cases edf; cases edraw) auto
  moreover have "set (map Product (map (\<lambda>i. hdf ! i) rdraw)) \<subseteq> Product ` set hdf"
    using ir by auto
  moreover have "set (map Product (map (\<lambda>i. edf ! i) edraw)) \<subseteq> Product ` set edf"
    using ie by auto
  ultimately show ?thesis using r e lr le by simp
qed

text \<open>C5 at the example: two costly slow products, one product expiring in 30 days.\<close>

theorem samples_bounded_and_total_witness:
  "valid_draw [1, 0] (min 2 (length (high_cost_low_sales_df example_df)))
             (length (high_cost_low_sales_df example_df))
   \<and> valid_draw [0] (min 2 (length (expiring_df 0 example_df))) (length (expiring_df 0 example_df))
   \<and> risky_sample [1, 0] (high_cost_low_sales_df example_df) = Inr [''P3'', ''P1'']
   \<and> expiring_sample [0] (expiring_df 0 example_df) = Inr [''P1'']"
proof -
  have h: "high_cost_low_sales_df example_df = [example_df ! 0, example_df ! 2]"
    by (simp add: high_cost_low_sales_df_filter example_df_def)
  have e: "expiring_df 0 example_df = [example_df ! 0]"
    by (simp add: expiring_df_filter example_df_def Timedelta_days_def)
  have v1: "valid_draw [1, 0] (min 2 (length (high_cost_low_sales_df example_df)))
             (length (high_cost_low_sales_df example_df))"
    unfolding h by (simp add: valid_draw_def)
  have v2: "valid_draw [0] (min 2 (length (expiring_df 0 example_df))) (length (expiring_df 0 example_df))"
    unfolding e by (simp add: valid_draw_def)
  have r: "risky_sample [1, 0] (high_cost_low_sales_df example_df) = Inr [''P3'', ''P1'']"
    unfolding h by (simp add: risky_sample_def sample_def example_df_def)
  have x: "expiring_sample [0] (expiring_df 0 example_df) = Inr [''P1'']"
    unfolding e by (simp add: expiring_sample_def sample_def example_df_def)
  show ?thesis using v1 v2 samples_bounded_and_total [OF v1 v2] r x by simp
qed

text \<open>
  C6, as stated, fails. At 11:36 the product of \<open>boundary_df\<close>, which expires at
  midnight thirty days after today's date, is not strictly earlier than the date
  plus 30 days, yet line 54 selects it: it compares with the instant, 11:36 thirty
  days on.
\<close>

theorem expiring_on_horizon_day_counterexample:
  "wall_clock_date late_morning = 0
   \<and> map ExpiryDate boundary_df = [wall_clock_date late_morning + Timedelta_days 30]
   \<and> spec_expiring 30 late_morning boundary_df = []
   \<and> expiring_df late_morning boundary_df = boundary_df
   \<and> boundary_df \<noteq> []"
  by (simp add: wall_clock_date_def late_morning_def Timedelta_days_def spec_expiring_def
      expiring_df_filter boundary_df_def)

text \<open>
  C6, amended. With \<open>today\<close> the instant the clock shows at the render, date and time
  of day, the Overview filter keeps exactly the rows whose expiry is strictly before
  \<open>today\<close> plus 30 days, and the Explorer filter exactly the rows of the filtered table
  whose expiry is strictly before \<open>today\<close> plus 90 days. Every row that is before the
  horizon counted from the date is kept, and at midnight the two horizons are the same.
\<close>

theorem expiring_filters_strict_horizons:
  "expiring_df today df = filter (\<lambda>r. ExpiryDate r < today + 30 * 86400000000000) df
   \<and> expiring_soon today fdf = filter (\<lambda>r. ExpiryDate r < today + 90 * 86400000000000) fdf
   \<and> (\<exists>v. overview gsum ssum today rdraw edraw ix df = Inr v
          \<and> ov_expiring_df v = filter (\<lambda>r. ExpiryDate r < today + 30 * 86400000000000) df)
   \<and> ex_expiring_soon (explorer today ix w b c df) =
       filter (\<lambda>r. ExpiryDate r < today + 90 * 86400000000000) (filtered_df w b c df)
   \<and> set (spec_expiring 30 today df) \<subseteq> set (expiring_df today df)
   \<and> set (spec_expiring 90 today fdf) \<subseteq> set (expiring_soon today fdf)
   \<and> (wall_clock_date today = today \<longrightarrow>
        expiring_df today df = spec_expiring 30 today df
        \<and> expiring_soon today fdf = spec_expiring 90 today fdf)"
proof -
  have 1: "expiring_df today df = filter (\<lambda>r. ExpiryDate r < today + 30 * 86400000000000) df"
    by (simp add: expiring_df_filter Timedelta_days_def)
  have 2: "expiring_soon today f = filter (\<lambda>r. ExpiryDate r < today + 90 * 86400000000000) f"
    for f by (simp add: expiring_soon_filter Timedelta_days_def)
  obtain v where v: "overview gsum ssum today rdraw edraw ix df = Inr v"
      "ov_expiring_df v = expiring_df today df"
    using overview_fields [of gsum ssum today rdraw edraw ix df] by blast
  have 3: "\<exists>v. overview gsum ssum today rdraw edraw ix df = Inr v
          \<and> ov_expiring_df v = filter (\<lambda>r. ExpiryDate r < today + 30 * 86400000000000) df"
    using v 1 by auto
  have 4: "ex_expiring_soon (explorer today ix w b c df) =
       filter (\<lambda>r. ExpiryDate r < today + 90 * 86400000000000) (filtered_df w b c df)"
    using 2 [of "filtered_df w b c df"] by (simp add: explorer_def Let_def)
  have le: "wall_clock_date today \<le> today"
    by (simp add: wall_clock_date_def Timedelta_days_def)
  have 5: "set (spec_expiring 30 today df) \<subseteq> set (expiring_df today df)"
    using le by (auto simp: spec_expiring_def expiring_df_filter)
  have 6: "set (spec_expiring 90 today fdf) \<subseteq> set (expiring_soon today fdf)"
    using le by (auto simp: spec_expiring_def expiring_soon_filter)
  have 7: "wall_clock_date today = today \<longrightarrow>
        expiring_df today df = spec_expiring 30 today df
        \<and> expiring_soon today fdf = spec_expiring 90 today fdf"
    by (simp add: spec_expiring_def expiring_df_filter expiring_soon_filter)
  show ?thesis using 1 2 [of fdf] 3 4 5 6 7 by blast
qed

text \<open>
  C6, amended, at the example with the clock at midnight: P1 expires within 30 days,
  P1 and P3 within 90.
\<close>

theorem expiring_filters_strict_horizons_witness:
  "wall_clock_date 0 = 0
   \<and> expiring_df 0 example_df = spec_expiring 30 0 example_df
   \<and> map Product (expiring_df 0 example_df) = [''P1'']
   \<and> map Product (expiring_soon 0 example_df) = [''P1'', ''P3'']"
proof -
  have m: "wall_clock_date 0 = 0" by (simp add: wall_clock_date_def)
  have a: "map Product (expiring_df 0 example_df) = [''P1'']"
    by (simp add: expiring_df_filter example_df_def Timedelta_days_def)
  have b: "map Product (expiring_soon 0 example_df) = [''P1'', ''P3'']"
    by (simp add: expiring_soon_filter example_df_def Timedelta_days_def)
  from expiring_filters_strict_horizons [of 0 example_df example_df] m
  have "expiring_df 0 example_df = spec_expiring 30 0 example_df" by blast
  then show ?thesis using m a b by simp
qed

text \<open>
  C7. The three selections keep exactly the rows that carry every selected value, and
  a selection of \<^verbatim>\<open>"All"\<close> adds no condition: with all three at \<^verbatim>\<open>"All"\<close> the
  table is unchanged. With a warehouse \<open>W\<close> selected (a value other than \<^verbatim>\<open>"All"\<close>,
  which the selection box keeps for "no filter"), the scatter, average-DOI, category
  and DOI-cost charts are given exactly the rows of \<open>W\<close> that carry the selected buyer
  and category, the revenue chart the first ten of those rows by revenue, the expiry
  chart those of them that expire within 90 days, if any. Every chart dataset holds
  rows of \<open>W\<close> only, and is the one the Explorer computes, with the warehouse selection
  at \<^verbatim>\<open>"All"\<close>, on the table restricted beforehand to the rows of \<open>W\<close>.
\<close>

theorem explorer_warehouse_filter_refines:
  "filtered_df w b c df =
     filter (\<lambda>r. (w = ''All'' \<or> Warehouse r = w) \<and> (b = ''All'' \<or> Buyer r = b)
                 \<and> (c = ''All'' \<or> Category r = c)) df
   \<and> filtered_df ''All'' ''All'' ''All'' df = df
   \<and> (W \<noteq> ''All'' \<longrightarrow>
       (let sub = filter (\<lambda>r. Warehouse r = W) df;
            fdf = filter (\<lambda>r. Warehouse r = W \<and> (b = ''All'' \<or> Buyer r = b)
                              \<and> (c = ''All'' \<or> Category r = c)) df;
            soon = filter (\<lambda>r. ExpiryDate r < today + Timedelta_days 90) fdf;
            e = explorer today ix W b c df;
            e' = explorer today ix ''All'' b c sub
        in ex_filtered_df e = fdf
           \<and> ex_scatter_chart e = fdf
           \<and> ex_avg_doi_chart e = fdf
           \<and> ex_cat_chart e = fdf
           \<and> ex_doi_cost_chart e = fdf
           \<and> ex_top_revenue e = take 10 (sort_values_desc DollarsSold12Mo ix fdf)
           \<and> ex_revenue_chart e = take 10 (sort_values_desc DollarsSold12Mo ix fdf)
           \<and> ex_expiring_soon e = soon
           \<and> ex_expiry_chart e = (if soon \<noteq> [] then Some soon else None)
           \<and> set fdf \<subseteq> set sub
           \<and> set (ex_revenue_chart e) \<subseteq> set sub
           \<and> set soon \<subseteq> set sub
           \<and> list_all (\<lambda>r. Warehouse r = W) sub
           \<and> ex_filtered_df e = ex_filtered_df e'
           \<and> ex_scatter_chart e = ex_scatter_chart e'
           \<and> ex_avg_doi_chart e = ex_avg_doi_chart e'
           \<and> ex_cat_chart e = ex_cat_chart e'
           \<and> ex_top_revenue e = ex_top_revenue e'
           \<and> ex_revenue_chart e = ex_revenue_chart e'
           \<and> ex_doi_cost_chart e = ex_doi_cost_chart e'
           \<and> ex_expiring_soon e = ex_expiring_soon e'
           \<and> ex_expiry_chart e = ex_expiry_chart e'))"
proof -
  have a: "filtered_df ''All'' ''All'' ''All'' df = df" by (simp add: filtered_df_filter)
  have main: "let sub = filter (\<lambda>r. Warehouse r = W) df;
            fdf = filter (\<lambda>r. Warehouse r = W \<and> (b = ''All'' \<or> Buyer r = b)
                              \<and> (c = ''All'' \<or> Category r = c)) df;
            soon = filter (\<lambda>r. ExpiryDate r < today + Timedelta_days 90) fdf;
            e = explorer today ix W b c df;
            e' = explorer today ix ''All'' b c sub
        in ex_filtered_df e = fdf
           \<and> ex_scatter_chart e = fdf
           \<and> ex_avg_doi_chart e = fdf
           \<and> ex_cat_chart e = fdf
           \<and> ex_doi_cost_chart e = fdf
           \<and> ex_top_revenue e = take 10 (sort_values_desc DollarsSold12Mo ix fdf)
           \<and> ex_revenue_chart e = take 10 (sort_values_desc DollarsSold12Mo ix fdf)
           \<and> ex_expiring_soon e = soon
           \<and> ex_expiry_chart e = (if soon \<noteq> [] then Some soon else None)
           \<and> set fdf \<subseteq> set sub
           \<and> set (ex_revenue_chart e) \<subseteq> set sub
           \<and> set soon \<subseteq> set sub
           \<and> list_all (\<lambda>r. Warehouse r = W) sub
           \<and> ex_filtered_df e = ex_filtered_df e'
           \<and> ex_scatter_chart e = ex_scatter_chart e'
           \<and> ex_avg_doi_chart e = ex_avg_doi_chart e'
           \<and> ex_cat_chart e = ex_cat_chart e'
           \<and> ex_top_revenue e = ex_top_revenue e'
           \<and> ex_revenue_chart e = ex_revenue_chart e'
           \<and> ex_doi_cost_chart e = ex_doi_cost_chart e'
           \<and> ex_expiring_soon e = ex_expiring_soon e'
           \<and> ex_expiry_chart e = ex_expiry_chart e'" if W: "W \<noteq> ''All''"
  proof -
    let ?sub = "filter (\<lambda>r. Warehouse r = W) df"
    let ?fdf = "filter (\<lambda>r. Warehouse r = W \<and> (b = ''All'' \<or> Buyer r = b)
                              \<and> (c = ''All'' \<or> Category r = c)) df"
    have f: "filtered_df W b c df = ?fdf" using W by (simp add: filtered_df_filter)
    have r: "filtered_df ''All'' b c ?sub = ?fdf"
      using filtered_df_restrict [OF W, of b c df] f by simp
    have s: "set ?fdf \<subseteq> set ?sub" by auto
    have t: "set (take 10 (sort_values_desc DollarsSold12Mo ix ?fdf)) \<subseteq> set ?sub"
      using s set_sort_values_desc [of DollarsSold12Mo ix ?fdf]
        set_take_subset [of 10 "sort_values_desc DollarsSold12Mo ix ?fdf"] by blast
    have u: "set (filter (\<lambda>r. ExpiryDate r < today + Timedelta_days 90) ?fdf) \<subseteq> set ?sub"
      by auto
    have w: "list_all (\<lambda>r. Warehouse r = W) ?sub" by (simp add: list_all_iff)
    show ?thesis
      unfolding Let_def explorer_def f r
      using s t u w by (simp add: top_revenue_def head_def expiring_soon_filter)
  qed
  show ?thesis using filtered_df_filter [of w b c df] a main by blast
qed

text \<open>C7 at the example with warehouse \<open>W1\<close> selected: its products are P1 and P3.\<close>

theorem explorer_warehouse_filter_refines_witness:
  "''W1'' \<noteq> ''All''
   \<and> map Product (ex_scatter_chart (explorer 0 [] ''W1'' ''All'' ''All'' example_df)) = [''P1'', ''P3'']
   \<and> map Product (ex_revenue_chart (explorer 0 [] ''W1'' ''All'' ''All'' example_df)) = [''P3'', ''P1'']
   \<and> ex_revenue_chart (explorer 0 [] ''W1'' ''All'' ''All'' example_df)
      = ex_revenue_chart (explorer 0 [] ''All'' ''All'' ''All''
          (filter (\<lambda>r. Warehouse r = ''W1'') example_df))"
proof -
  have f: "filter (\<lambda>r. Warehouse r = ''W1'' \<and> (''All'' = ''All'' \<or> Buyer r = ''All'')
             \<and> (''All'' = ''All'' \<or> Category r = ''All'')) example_df
           = [example_df ! 0, example_df ! 2]"
    by (simp add: example_df_def)
  have n: "''W1'' \<noteq> ''All''" by simp
  from explorer_warehouse_filter_refines
         [of "''W1''" "''All''" "''All''" example_df "''W1''" 0 "[]"] n
  have a: "ex_scatter_chart (explorer 0 [] ''W1'' ''All'' ''All'' example_df)
             = [example_df ! 0, example_df ! 2]"
    and b: "ex_revenue_chart (explorer 0 [] ''W1'' ''All'' ''All'' example_df)
             = take 10 (sort_values_desc DollarsSold12Mo [] [example_df ! 0, example_df ! 2])"
    and c: "ex_revenue_chart (explorer 0 [] ''W1'' ''All'' ''All'' example_df)
      = ex_revenue_chart (explorer 0 [] ''All'' ''All'' ''All''
          (filter (\<lambda>r. Warehouse r = ''W1'') example_df))"
    unfolding Let_def f by blast+
  have a': "map Product (ex_scatter_chart (explorer 0 [] ''W1'' ''All'' ''All'' example_df))
             = [''P1'', ''P3'']"
    unfolding a by (simp add: example_df_def)
  have b': "map Product (ex_revenue_chart (explorer 0 [] ''W1'' ''All'' ''All'' example_df))
             = [''P3'', ''P1'']"
    unfolding b by (simp add: sort_values_desc_def tie_order_def example_df_def)
  show ?thesis using n a' b' c by blast
qed

text \<open>
  C8. Each rule filter applied to its own output gives that output again (the expiry
  filter too, for one reading of the clock).
\<close>

theorem rule_filters_idempotent:
  "low_doi_df (low_doi_df df) = low_doi_df df
   \<and> overstock_df (overstock_df df) = overstock_df df
   \<and> high_cost_low_sales_df (high_cost_low_sales_df df) = high_cost_low_sales_df df
   \<and> expiring_df today (expiring_df today df) = expiring_df today df"
  by (simp add: low_doi_df_filter overstock_df_filter high_cost_low_sales_df_filter
      expiring_df_filter)

text \<open>
  C9. Line 48 adds the classifier's column and changes nothing else: without that
  column the table is the loaded one, row for row. Each view leaves the table as it
  found it, and every frame a filter produces holds rows of the table only.
\<close>

theorem source_table_only_gains_status:
  "(\<exists>df. classified loaded = Inr df \<and> map product.truncate df = loaded
        \<and> map DOI_Status df = get_doi_status (map DOI loaded))
   \<and> (\<exists>v. overview gsum ssum today rdraw edraw ix df = Inr v \<and> ov_df v = df
        \<and> set (ov_low_doi_df v) \<subseteq> set df \<and> set (ov_overstock_df v) \<subseteq> set df
        \<and> set (ov_expiring_df v) \<subseteq> set df \<and> set (ov_high_cost_low_sales_df v) \<subseteq> set df)
   \<and> ex_df (explorer today ix w b c df) = df
   \<and> set (ex_filtered_df (explorer today ix w b c df)) \<subseteq> set df
   \<and> set (ex_expiring_soon (explorer today ix w b c df)) \<subseteq> set df"
proof -
  have 1: "\<exists>df. classified loaded = Inr df \<and> map product.truncate df = loaded
        \<and> map DOI_Status df = get_doi_status (map DOI loaded)"
    by (simp add: classified_rows comp_def extend_fields get_doi_status_map)
  obtain v where v: "overview gsum ssum today rdraw edraw ix df = Inr v" "ov_df v = df"
     "ov_low_doi_df v = low_doi_df df" "ov_overstock_df v = overstock_df df"
     "ov_expiring_df v = expiring_df today df"
     "ov_high_cost_low_sales_df v = high_cost_low_sales_df df"
    using overview_fields [of gsum ssum today rdraw edraw ix df] by blast
  have 2: "\<exists>v. overview gsum ssum today rdraw edraw ix df = Inr v \<and> ov_df v = df
        \<and> set (ov_low_doi_df v) \<subseteq> set df \<and> set (ov_overstock_df v) \<subseteq> set df
        \<and> set (ov_expiring_df v) \<subseteq> set df \<and> set (ov_high_cost_low_sales_df v) \<subseteq> set df"
    using v by (auto simp: low_doi_df_filter overstock_df_filter expiring_df_filter
        high_cost_low_sales_df_filter)
  have 3: "ex_df (explorer today ix w b c df) = df" by (simp add: explorer_def Let_def)
  have 4: "set (ex_filtered_df (explorer today ix w b c df)) \<subseteq> set df"
    by (auto simp: explorer_def Let_def filtered_df_filter)
  have 5: "set (ex_expiring_soon (explorer today ix w b c df)) \<subseteq> set df"
    by (auto simp: explorer_def Let_def filtered_df_filter expiring_soon_filter)
  show ?thesis using 1 2 3 4 5 by blast
qed

text \<open>
  C10. In the classified table a row is in the low-DOI subset iff its status is the
  Low label, so the low-stock count of the Overview is the number of rows, and of
  labels, that the classifier made Low.
\<close>

theorem low_doi_subset_is_low_status:
  "\<exists>df. classified loaded = Inr df
     \<and> low_doi_df df = filter (\<lambda>r. DOI_Status r = LOW) df
     \<and> length (low_doi_df df) = length (filter (\<lambda>s. s = LOW) (get_doi_status (map DOI loaded)))
     \<and> (\<exists>v. overview gsum ssum today rdraw edraw ix df = Inr v
            \<and> ov_low_stock v = length (filter (\<lambda>r. DOI_Status r = LOW) df)
            \<and> ov_low_doi_count v = ov_low_stock v)"
proof -
  let ?lbl = "\<lambda>v::real. if v < 10 then LOW else if v > 180 then OVERSTOCK else NORMAL"
  let ?df = "map (\<lambda>p. product.extend p (row.fields (?lbl (DOI p)))) loaded"
  have cl: "classified loaded = Inr ?df" by (rule classified_rows)
  have same: "filter (\<lambda>r. DOI r < 10) ?df = filter (\<lambda>r. DOI_Status r = LOW) ?df"
    by (rule filter_cong) (auto simp: extend_fields label_LOW_iff)
  have "length (filter (\<lambda>r. DOI r < 10) ?df) = length (filter (\<lambda>p. DOI p < 10) loaded)"
    by (simp add: filter_map comp_def extend_fields)
  moreover have "length (filter (\<lambda>s. s = LOW) (get_doi_status (map DOI loaded)))
      = length (filter (\<lambda>p. DOI p < 10) loaded)"
    by (simp add: get_doi_status_map filter_map comp_def label_LOW_iff)
  ultimately have len: "length (low_doi_df ?df)
      = length (filter (\<lambda>s. s = LOW) (get_doi_status (map DOI loaded)))"
    by (simp add: low_doi_df_filter)
  have low: "low_doi_df ?df = filter (\<lambda>r. DOI_Status r = LOW) ?df"
    using same by (simp add: low_doi_df_filter)
  obtain v where v: "overview gsum ssum today rdraw edraw ix ?df = Inr v"
      "ov_low_doi_count v = length (low_doi_df ?df)" "ov_low_stock v = length (low_doi_df ?df)"
    using overview_fields [of gsum ssum today rdraw edraw ix ?df] by blast
  have kpi: "\<exists>v. overview gsum ssum today rdraw edraw ix ?df = Inr v
            \<and> ov_low_stock v = length (filter (\<lambda>r. DOI_Status r = LOW) ?df)
            \<and> ov_low_doi_count v = ov_low_stock v"
    using v low by auto
  show ?thesis using cl low len kpi by blast
qed

end
